theory Spec2Isabelle
  imports Complex_Main
begin

section \<open>Shared data: JSON values, requests, responses\<close>

text \<open>
  Values of type \<^verbatim>\<open>any\<close> (queue payloads, response bodies, decoded token payloads) are
  JSON values. \<open>JNull\<close> stands for both \<^verbatim>\<open>null\<close> and \<^verbatim>\<open>undefined\<close> at the top level
  of such a value; a property that is missing from an object is \<open>None\<close>.
\<close>

datatype json =
    JNull
  | JBool bool
  | JNum real
  | JStr string
  | JArr "json list"
  | JObj "(string \<times> json) list"

text \<open>
  \<^verbatim>\<open>v.k\<close> for a value \<open>v\<close> that is not null, for the keys the code reads
  (\<^verbatim>\<open>id\<close>, \<^verbatim>\<open>exp\<close>, \<^verbatim>\<open>accessToken\<close>, \<^verbatim>\<open>refreshToken\<close>): an own property of an object,
  \<^verbatim>\<open>undefined\<close> (\<open>None\<close>) on everything else. Reading a property of null throws; the
  callers below write that branch out.
\<close>

fun get_prop :: "json \<Rightarrow> string \<Rightarrow> json option" where
  "get_prop (JObj fs) k = map_of fs k"
| "get_prop _ k = None"

datatype http_method = GET | POST | PUT | DELETE

text \<open>
  An Axios request configuration, with the \<^verbatim>\<open>_retry\<close> mark the response interceptor
  puts on it; \<open>authorization\<close> is \<^verbatim>\<open>headers.Authorization\<close>.
\<close>

record request =
  meth :: http_method
  url :: string
  body :: "json option"
  authorization :: "string option"
  retry :: bool

record response =
  status :: nat
  data :: json

text \<open>
  What a rejected call rejects with: an \<^verbatim>\<open>AxiosError\<close> carrying the request
  configuration and \<^verbatim>\<open>error.response?.status\<close> (\<open>None\<close> when no response was received),
  or an error thrown by the code itself or by the storage.
\<close>

datatype error =
    AxiosError request "nat option"
  | ThrownError

datatype outcome = Resolved response | Rejected error

text \<open>
  An API client as the queue sees it (\<^verbatim>\<open>apiClient: any\<close>): a call resolves or rejects
  and may change the remote world \<open>'w\<close>.
\<close>

type_synonym 'w client = "request \<Rightarrow> 'w \<Rightarrow> outcome \<times> 'w"

section \<open>The offline queue (syncService.ts)\<close>

datatype entity = Pet | Appointment | Medication

datatype sync_action = Create | Update | Delete

record SyncItem =
  item_id :: string
  item_type :: entity
  action :: sync_action
  item_data :: json
  item_timestamp :: int
  retries :: nat

record SyncStatus =
  isSyncing :: bool
  lastSync :: "int option"
  pendingCount :: nat
  failedCount :: nat

definition MAX_RETRIES :: nat where
  "MAX_RETRIES = 3"

text \<open>
  The service object and the two AsyncStorage keys it owns: \<open>syncStatus\<close> is the
  in-memory field \<^verbatim>\<open>this.syncStatus\<close>, \<open>stored_queue\<close> and \<open>stored_status\<close> are what is
  under \<^verbatim>\<open>@sync_queue\<close> and \<^verbatim>\<open>@sync_status\<close> (\<open>None\<close>: never written). The storage is
  taken to be reliable, and \<^verbatim>\<open>JSON.parse (JSON.stringify x)\<close> to give \<open>x\<close> back. Each
  operation is modelled as running to completion without another one interleaving.
\<close>

record sync_service =
  syncStatus :: SyncStatus
  stored_queue :: "SyncItem list option"
  stored_status :: "SyncStatus option"

definition initial_status :: SyncStatus where
  "initial_status = \<lparr>isSyncing = False, lastSync = None, pendingCount = 0, failedCount = 0\<rparr>"

definition new_service :: sync_service where
  "new_service = \<lparr>syncStatus = initial_status, stored_queue = None, stored_status = None\<rparr>"

definition getQueue :: "sync_service \<Rightarrow> SyncItem list" where
  "getQueue s = (case stored_queue s of None \<Rightarrow> [] | Some q \<Rightarrow> q)"

definition getStatus :: "sync_service \<Rightarrow> SyncStatus" where
  "getStatus s = (case stored_status s of None \<Rightarrow> syncStatus s | Some st \<Rightarrow> st)"

text \<open>\<^verbatim>\<open>updates: Partial<SyncStatus>\<close> is the record update \<open>upd\<close>.\<close>

definition updateStatus :: "(SyncStatus \<Rightarrow> SyncStatus) \<Rightarrow> sync_service \<Rightarrow> sync_service" where
  "updateStatus upd s =
     (let st = upd (syncStatus s) in s\<lparr>syncStatus := st, stored_status := Some st\<rparr>)"

fun type_name :: "entity \<Rightarrow> string" where
  "type_name Pet = ''pet''"
| "type_name Appointment = ''appointment''"
| "type_name Medication = ''medication''"

text \<open>
  \<open>idnow\<close> and \<open>rnd\<close> are the renderings of \<^verbatim>\<open>Date.now()\<close> and \<^verbatim>\<open>Math.random()\<close> in the
  id; \<open>now\<close> is the second \<^verbatim>\<open>Date.now()\<close>.
\<close>

definition addToQueue ::
  "entity \<Rightarrow> sync_action \<Rightarrow> json \<Rightarrow> string \<Rightarrow> string \<Rightarrow> int \<Rightarrow> sync_service \<Rightarrow> sync_service" where
  "addToQueue ty act d idnow rnd now s =
     (let queue = getQueue s;
          item = \<lparr>item_id = type_name ty @ ''_'' @ idnow @ ''_'' @ rnd, item_type = ty,
                  action = act, item_data = d, item_timestamp = now, retries = 0\<rparr>;
          queue' = queue @ [item];
          s1 = s\<lparr>stored_queue := Some queue'\<rparr>
      in updateStatus (\<lambda>st. st\<lparr>pendingCount := length queue'\<rparr>) s1)"

text \<open>
  A template literal \<^verbatim>\<open>${v}\<close>: a string is itself, \<^verbatim>\<open>undefined\<close> and \<^verbatim>\<open>null\<close> and the
  booleans print their names; \<open>render\<close> is JavaScript's string conversion of numbers,
  arrays and objects.
\<close>

fun template :: "(json \<Rightarrow> string) \<Rightarrow> json option \<Rightarrow> string" where
  "template render None = ''undefined''"
| "template render (Some (JStr s)) = s"
| "template render (Some JNull) = ''null''"
| "template render (Some (JBool b)) = (if b then ''true'' else ''false'')"
| "template render (Some v) = render v"

definition plain_request :: "http_method \<Rightarrow> string \<Rightarrow> json option \<Rightarrow> request" where
  "plain_request m u b = \<lparr>meth = m, url = u, body = b, authorization = None, retry = False\<rparr>"

text \<open>
  \<open>syncItem\<close> returns \<open>True\<close> when it returns normally and \<open>False\<close> when it throws:
  the awaited call rejected, or \<^verbatim>\<open>item.data.id\<close> was read on a null payload (no call is
  made then).
\<close>

definition syncItem :: "(json \<Rightarrow> string) \<Rightarrow> 'w client \<Rightarrow> SyncItem \<Rightarrow> 'w \<Rightarrow> bool \<times> 'w" where
  "syncItem render api item w =
     (let endpoint = ''/'' @ type_name (item_type item) @ ''s'';
          dispatch = (\<lambda>req. case api req w of
                         (Resolved r, w') \<Rightarrow> (True, w')
                       | (Rejected e, w') \<Rightarrow> (False, w'))
      in case action item of
           Create \<Rightarrow> dispatch (plain_request POST endpoint (Some (item_data item)))
         | Update \<Rightarrow>
             (if item_data item = JNull then (False, w)
              else dispatch (plain_request PUT
                     (endpoint @ ''/'' @ template render (get_prop (item_data item) ''id''))
                     (Some (item_data item))))
         | Delete \<Rightarrow>
             (if item_data item = JNull then (False, w)
              else dispatch (plain_request DELETE
                     (endpoint @ ''/'' @ template render (get_prop (item_data item) ''id''))
                     None)))"

text \<open>The \<^verbatim>\<open>for (const item of queue)\<close> loop of \<open>sync\<close>, with its \<^verbatim>\<open>failed\<close> array.\<close>

fun sync_loop ::
  "(json \<Rightarrow> string) \<Rightarrow> 'w client \<Rightarrow> SyncItem list \<Rightarrow> SyncItem list \<Rightarrow> 'w \<Rightarrow> SyncItem list \<times> 'w" where
  "sync_loop render api [] failed w = (failed, w)"
| "sync_loop render api (item # rest) failed w =
     (case syncItem render api item w of
        (True, w') \<Rightarrow> sync_loop render api rest failed w'
      | (False, w') \<Rightarrow>
          (let item' = item\<lparr>retries := retries item + 1\<rparr>
           in sync_loop render api rest
                (if retries item' < MAX_RETRIES then failed @ [item'] else failed) w'))"

definition sync ::
  "(json \<Rightarrow> string) \<Rightarrow> 'w client \<Rightarrow> int \<Rightarrow> sync_service \<Rightarrow> 'w \<Rightarrow> sync_service \<times> 'w" where
  "sync render api now s w =
     (if isSyncing (syncStatus s) then (s, w)
      else
        (let s1 = updateStatus (\<lambda>st. st\<lparr>isSyncing := True\<rparr>) s;
             queue = getQueue s1;
             (failed, w') = sync_loop render api queue [] w;
             s2 = s1\<lparr>stored_queue := Some failed\<rparr>
         in (updateStatus (\<lambda>st. st\<lparr>isSyncing := False, lastSync := Some now,
                                  pendingCount := length failed,
                                  failedCount := length (filter (\<lambda>i. retries i \<ge> MAX_RETRIES) failed)\<rparr>) s2,
             w')))"


text \<open>The persisted pending count agrees with the persisted log.\<close>

definition queue_inv :: "sync_service \<Rightarrow> bool" where
  "queue_inv s \<longleftrightarrow> pendingCount (getStatus s) = length (getQueue s)"

subsection \<open>Conflict resolution\<close>

text \<open>
  The two arguments of \<open>handleConflict\<close> are of type \<^verbatim>\<open>any\<close>: JSON values, as they come
  from the storage or from a response. The fields \<^verbatim>\<open>updatedAt\<close> and \<^verbatim>\<open>timestamp\<close> may
  hold a number (\<^verbatim>\<open>Date.now()\<close>), a string (the ISO dates of the entity types), any
  other value, or be missing.
\<close>










section \<open>The authenticated request pipeline (apiInterceptors.ts)\<close>

text \<open>
  What the transport under Axios does with a request: \<open>Fulfilled\<close> when Axios resolves
  with the response, \<open>Failed st\<close> when it rejects with an \<^verbatim>\<open>AxiosError\<close> whose
  \<^verbatim>\<open>response?.status\<close> is \<open>st\<close> (\<open>None\<close>: timeout or no connection).
\<close>

datatype reply = Fulfilled response | Failed "nat option"

type_synonym 'w transport = "request \<Rightarrow> 'w \<Rightarrow> reply \<times> 'w"

text \<open>
  The two AsyncStorage keys \<^verbatim>\<open>@access_token\<close> and \<^verbatim>\<open>@refresh_token\<close> (\<open>None\<close>: no
  item), the remote world, and the list of the requests handed to the transport so far.
  The storage is taken to be reliable.
\<close>

record 'w pipeline =
  access_token :: "string option"
  refresh_token :: "string option"
  world :: 'w
  calls :: "request list"

text \<open>The request interceptor: \<^verbatim>\<open>if (token && config.headers)\<close>; an empty string is falsy.\<close>

definition requestInterceptor :: "'w pipeline \<Rightarrow> request \<Rightarrow> request" where
  "requestInterceptor s config =
     (case access_token s of
        None \<Rightarrow> config
      | Some token \<Rightarrow>
          if token \<noteq> [] then config\<lparr>authorization := Some (''Bearer '' @ token)\<rparr> else config)"

definition submit :: "'w transport \<Rightarrow> request \<Rightarrow> 'w pipeline \<Rightarrow> reply \<times> 'w pipeline" where
  "submit tr req s =
     (case tr req (world s) of (rep, w') \<Rightarrow> (rep, s\<lparr>world := w', calls := calls s @ [req]\<rparr>))"

definition refresh_request :: "string \<Rightarrow> request" where
  "refresh_request refreshToken =
     plain_request POST ''/auth/refresh'' (Some (JObj [(''refreshToken'', JStr refreshToken)]))"

text \<open>
  \<^verbatim>\<open>const { accessToken, refreshToken } = response.data\<close>, followed by the two
  \<^verbatim>\<open>setItem\<close> calls: the pair of strings when both are there. On any other body either
  the destructuring throws or the storage is handed a value that is not a string; both
  are modelled as a throw inside the \<^verbatim>\<open>try\<close> block.
\<close>

definition token_fields :: "json \<Rightarrow> (string \<times> string) option" where
  "token_fields d =
     (case get_prop d ''accessToken'' of
        Some (JStr a) \<Rightarrow>
          (case get_prop d ''refreshToken'' of Some (JStr r) \<Rightarrow> Some (a, r) | _ \<Rightarrow> None)
      | _ \<Rightarrow> None)"

definition clear_tokens :: "'w pipeline \<Rightarrow> 'w pipeline" where
  "clear_tokens s = s\<lparr>access_token := None, refresh_token := None\<rparr>"

definition store_tokens :: "string \<Rightarrow> string \<Rightarrow> 'w pipeline \<Rightarrow> 'w pipeline" where
  "store_tokens a r s = s\<lparr>access_token := Some a, refresh_token := Some r\<rparr>"

text \<open>
  \<open>send\<close> is a call of the client (\<^verbatim>\<open>apiClient(config)\<close>, \<^verbatim>\<open>apiClient.post(...)\<close>):
  request interceptor, transport, response interceptor. \<open>onRejected\<close> is the rejection
  handler of the response interceptor, applied to the error with configuration
  \<open>originalRequest\<close> and status \<open>st\<close>. The handler calls the client for the refresh and
  for the retry, and those calls run the handler again, so the recursion is bounded by
  a fuel argument: \<open>None\<close> means the fuel ran out. Setting \<^verbatim>\<open>_retry\<close> changes the
  configuration object that the error refers to, so an error rejected after the mark
  carries the marked configuration. The rejection of the retry is not caught by the
  \<^verbatim>\<open>try\<close> block (the promise is returned, not awaited).
\<close>

fun send :: "nat \<Rightarrow> 'w transport \<Rightarrow> request \<Rightarrow> 'w pipeline \<Rightarrow> (outcome \<times> 'w pipeline) option"
  and onRejected ::
    "nat \<Rightarrow> 'w transport \<Rightarrow> request \<Rightarrow> nat option \<Rightarrow> 'w pipeline \<Rightarrow> (outcome \<times> 'w pipeline) option"
where
  "send 0 tr config s = None"
| "send (Suc n) tr config s =
     (case submit tr (requestInterceptor s config) s of
        (Fulfilled resp, s1) \<Rightarrow> Some (Resolved resp, s1)
      | (Failed st, s1) \<Rightarrow> onRejected n tr (requestInterceptor s config) st s1)"
| "onRejected n tr originalRequest st s =
     (if st = Some 401 \<and> \<not> retry originalRequest then
        (case refresh_token s of
           None \<Rightarrow> Some (Rejected (AxiosError (originalRequest\<lparr>retry := True\<rparr>) st), s)
         | Some refreshToken \<Rightarrow>
             if refreshToken = []
             then Some (Rejected (AxiosError (originalRequest\<lparr>retry := True\<rparr>) st), s)
             else
               (case send n tr (refresh_request refreshToken) s of
                  None \<Rightarrow> None
                | Some (Rejected refreshError, s2) \<Rightarrow>
                    Some (Rejected refreshError, clear_tokens s2)
                | Some (Resolved resp, s2) \<Rightarrow>
                    (case token_fields (data resp) of
                       None \<Rightarrow> Some (Rejected ThrownError, clear_tokens s2)
                     | Some (accessToken, newRefreshToken) \<Rightarrow>
                         send n tr
                           (originalRequest\<lparr>retry := True,
                              authorization := Some (''Bearer '' @ accessToken)\<rparr>)
                           (store_tokens accessToken newRefreshToken s2))))
      else Some (Rejected (AxiosError originalRequest st), s))"

text \<open>What the caller gets from one submission that is not handled further.\<close>

fun settle :: "request \<Rightarrow> reply \<Rightarrow> outcome" where
  "settle req (Fulfilled resp) = Resolved resp"
| "settle req (Failed st) = Rejected (AxiosError req st)"

subsection \<open>The rejection handler between its awaits\<close>

text \<open>
  The handler is an \<^verbatim>\<open>async\<close> function: it gives way at each \<^verbatim>\<open>await\<close>, and other
  handlers may read and write the token store before it goes on. A \<open>handler\<close> value is
  the point the handler has reached together with its local variables: entered with the
  error; refresh token read (the request is marked by then); refresh call resolved;
  token pair stored; settled with the caller's result. \<open>handler_step\<close> runs it from one
  point to the next on the store as it is at that moment. The two calls of the client
  inside the handler, the refresh and the resubmission, are each one step. The steps run
  one after the other on the same store are \<open>onRejected\<close>.
\<close>

datatype handler =
    Entered request "nat option"
  | TokenRead request string
  | RefreshDone request response
  | TokensStored request string
  | Settled outcome

fun handler_step ::
  "nat \<Rightarrow> 'w transport \<Rightarrow> handler \<Rightarrow> 'w pipeline \<Rightarrow> (handler \<times> 'w pipeline) option" where
  "handler_step n tr (Entered originalRequest st) s =
     (if st = Some 401 \<and> \<not> retry originalRequest then
        (case refresh_token s of
           None \<Rightarrow> Some (Settled (Rejected (AxiosError (originalRequest\<lparr>retry := True\<rparr>) st)), s)
         | Some refreshToken \<Rightarrow>
             if refreshToken = []
             then Some (Settled (Rejected (AxiosError (originalRequest\<lparr>retry := True\<rparr>) st)), s)
             else Some (TokenRead (originalRequest\<lparr>retry := True\<rparr>) refreshToken, s))
      else Some (Settled (Rejected (AxiosError originalRequest st)), s))"
| "handler_step n tr (TokenRead originalRequest refreshToken) s =
     (case send n tr (refresh_request refreshToken) s of
        None \<Rightarrow> None
      | Some (Rejected refreshError, s2) \<Rightarrow>
          Some (Settled (Rejected refreshError), clear_tokens s2)
      | Some (Resolved resp, s2) \<Rightarrow> Some (RefreshDone originalRequest resp, s2))"
| "handler_step n tr (RefreshDone originalRequest resp) s =
     (case token_fields (data resp) of
        None \<Rightarrow> Some (Settled (Rejected ThrownError), clear_tokens s)
      | Some (accessToken, newRefreshToken) \<Rightarrow>
          Some (TokensStored originalRequest accessToken,
                store_tokens accessToken newRefreshToken s))"
| "handler_step n tr (TokensStored originalRequest accessToken) s =
     (case send n tr (originalRequest\<lparr>authorization := Some (''Bearer '' @ accessToken)\<rparr>) s of
        None \<Rightarrow> None
      | Some (out, s') \<Rightarrow> Some (Settled out, s'))"
| "handler_step n tr (Settled out) s = Some (Settled out, s)"

text \<open>\<open>k\<close> steps of one handler with nothing in between.\<close>

fun handler_run ::
  "nat \<Rightarrow> nat \<Rightarrow> 'w transport \<Rightarrow> handler \<Rightarrow> 'w pipeline \<Rightarrow> (handler \<times> 'w pipeline) option" where
  "handler_run 0 n tr h s = Some (h, s)"
| "handler_run (Suc k) n tr h s =
     (case handler_step n tr h s of
        None \<Rightarrow> None
      | Some (h', s') \<Rightarrow> handler_run k n tr h' s')"

text \<open>
  Two handlers on one store, run in the order of a schedule: \<open>True\<close> is a step of the
  first, \<open>False\<close> a step of the second.
\<close>

fun interleave ::
  "bool list \<Rightarrow> nat \<Rightarrow> 'w transport \<Rightarrow> handler \<Rightarrow> handler \<Rightarrow> 'w pipeline
     \<Rightarrow> (handler \<times> handler \<times> 'w pipeline) option" where
  "interleave [] n tr hA hB s = Some (hA, hB, s)"
| "interleave (True # sched) n tr hA hB s =
     (case handler_step n tr hA s of
        None \<Rightarrow> None
      | Some (hA', s') \<Rightarrow> interleave sched n tr hA' hB s')"
| "interleave (False # sched) n tr hA hB s =
     (case handler_step n tr hB s of
        None \<Rightarrow> None
      | Some (hB', s') \<Rightarrow> interleave sched n tr hA hB' s')"

section \<open>Token validation (authService.ts)\<close>

text \<open>\<^verbatim>\<open>s.split(c)\<close> for a one-character separator: the empty string gives one empty part.\<close>

fun split_on :: "char \<Rightarrow> string \<Rightarrow> string list" where
  "split_on c [] = [[]]"
| "split_on c (x # xs) =
     (if x = c then [] # split_on c xs
      else (case split_on c xs of
              [] \<Rightarrow> [[x]]
            | p # ps \<Rightarrow> (x # p) # ps))"

text \<open>
  \<open>decodeToken\<close> returns \<open>None\<close> when it throws. \<open>decode\<close> is the library part,
  \<^verbatim>\<open>JSON.parse(Buffer.from(payload, 'base64').toString('utf-8'))\<close>, with \<open>None\<close> when
  that throws (the \<^verbatim>\<open>SyntaxError\<close> of \<^verbatim>\<open>JSON.parse\<close>).
\<close>

definition decodeToken :: "(string \<Rightarrow> json option) \<Rightarrow> string \<Rightarrow> json option" where
  "decodeToken decode token =
     (let parts = split_on CHR ''.'' token
      in if length parts \<noteq> 3 then None else decode (parts ! 1))"

text \<open>
  The number that the comparison \<^verbatim>\<open>v > now\<close> makes of \<open>v\<close> when \<open>now\<close> is a number;
  \<open>None\<close> is NaN. \<^verbatim>\<open>undefined\<close> is NaN, \<^verbatim>\<open>null\<close> is 0, the booleans are 0 and 1;
  \<open>tonum\<close> is JavaScript's conversion of strings, arrays and objects.
\<close>

fun to_number :: "(json \<Rightarrow> real option) \<Rightarrow> json option \<Rightarrow> real option" where
  "to_number tonum None = None"
| "to_number tonum (Some JNull) = Some 0"
| "to_number tonum (Some (JBool b)) = Some (if b then 1 else 0)"
| "to_number tonum (Some (JNum x)) = Some x"
| "to_number tonum (Some v) = tonum v"

definition greater_than :: "(json \<Rightarrow> real option) \<Rightarrow> json option \<Rightarrow> int \<Rightarrow> bool" where
  "greater_than tonum v now =
     (case to_number tonum v of None \<Rightarrow> False | Some x \<Rightarrow> x > real_of_int now)"

text \<open>
  \<open>now_ms\<close> is \<^verbatim>\<open>Date.now()\<close>. Reading \<^verbatim>\<open>payload.exp\<close> on a null payload throws, which
  the \<^verbatim>\<open>catch\<close> turns into \<open>False\<close>.
\<close>

definition validateToken ::
  "(string \<Rightarrow> json option) \<Rightarrow> (json \<Rightarrow> real option) \<Rightarrow> string \<Rightarrow> int \<Rightarrow> bool" where
  "validateToken decode tonum token now_ms =
     (if token = [] then False
      else
        (case decodeToken decode token of
           None \<Rightarrow> False
         | Some payload \<Rightarrow>
             (let now = now_ms div 1000
              in if payload = JNull then False
                 else greater_than tonum (get_prop payload ''exp'') now)))"

section \<open>Example inputs\<close>

text \<open>A client that records each request it is given and rejects it with status \<open>st\<close>.\<close>

definition failing_client :: "nat \<Rightarrow> request list client" where
  "failing_client st req w = (Rejected (AxiosError req (Some st)), w @ [req])"

definition ex_render :: "json \<Rightarrow> string" where
  "ex_render v = ''[object Object]''"


definition ex_update :: SyncItem where
  "ex_update = \<lparr>item_id = ''pet_1_0.5'', item_type = Pet, action = Update,
                 item_data = JObj [(''id'', JStr ''p1'')], item_timestamp = 1, retries = 0\<rparr>"

definition ex_queued :: sync_service where
  "ex_queued = addToQueue Pet Update (JObj [(''id'', JStr ''p1'')]) ''1'' ''0.5'' 1 new_service"

definition ex_syncing :: sync_service where
  "ex_syncing = updateStatus (\<lambda>st. st\<lparr>isSyncing := True\<rparr>) ex_queued"


text \<open>One flush against a remote that rejects every call with status 500.\<close>

definition flush_failing :: "sync_service \<Rightarrow> sync_service" where
  "flush_failing s = fst (sync ex_render (failing_client 500) 10 s [])"

text \<open>
  A transport that answers from a script, one reply per request, and has no connection
  once the script is used up.
\<close>

definition scripted :: "reply list transport" where
  "scripted req w = (case w of [] \<Rightarrow> (Failed None, []) | r # rs \<Rightarrow> (r, rs))"

definition ex_config :: request where
  "ex_config = plain_request GET ''/pets'' None"

definition ex_reqB :: request where
  "ex_reqB = plain_request GET ''/appointments'' None"

definition bearer :: "string \<Rightarrow> request \<Rightarrow> request" where
  "bearer t req = req\<lparr>authorization := Some (''Bearer '' @ t)\<rparr>"

definition ex_pipeline ::
  "string \<Rightarrow> string \<Rightarrow> reply list \<Rightarrow> request list \<Rightarrow> reply list pipeline" where
  "ex_pipeline a r script sent =
     \<lparr>access_token = Some a, refresh_token = Some r, world = script, calls = sent\<rparr>"

definition ex_tokens :: "string \<Rightarrow> string \<Rightarrow> response" where
  "ex_tokens a r =
     \<lparr>status = 200, data = JObj [(''accessToken'', JStr a), (''refreshToken'', JStr r)]\<rparr>"

definition ex_ok :: response where
  "ex_ok = \<lparr>status = 200, data = JArr []\<rparr>"

definition ex_no_refresh_token :: "reply list pipeline" where
  "ex_no_refresh_token = (ex_pipeline ''a0'' ''r0'' [Failed (Some 401)] [])\<lparr>refresh_token := None\<rparr>"

definition ex_refresh_rejected :: "reply list pipeline" where
  "ex_refresh_rejected = ex_pipeline ''a0'' ''r0'' [Failed (Some 401), Failed (Some 500)] []"

definition ex_refresh_unauthorized :: "reply list pipeline" where
  "ex_refresh_unauthorized =
     ex_pipeline ''a0'' ''r0'' [Failed (Some 401), Failed (Some 401), Failed (Some 500)] []"

text \<open>A remote that answers every request with 401.\<close>

definition always_401 :: "unit transport" where
  "always_401 req w = (Failed (Some 401), w)"

definition ex_retry_rejected :: "reply list pipeline" where
  "ex_retry_rejected =
     ex_pipeline ''a0'' ''r0''
       [Failed (Some 401), Fulfilled (ex_tokens ''a1'' ''r1''), Failed (Some 401), Fulfilled ex_ok] []"

definition ex_two :: "reply list pipeline" where
  "ex_two =
     ex_pipeline ''a0'' ''r0''
       [Failed (Some 401), Failed (Some 401),
        Fulfilled (ex_tokens ''a1'' ''r1''), Fulfilled ex_ok,
        Fulfilled (ex_tokens ''a2'' ''r2''), Fulfilled ex_ok] []"

text \<open>
  The store after both requests of \<open>ex_two\<close> have been rejected with 401, with the
  replies to two refresh calls first and to two resubmissions after them.
\<close>

definition ex_both_failed :: "reply list pipeline" where
  "ex_both_failed =
     ex_pipeline ''a0'' ''r0''
       [Fulfilled (ex_tokens ''a1'' ''r1''), Fulfilled (ex_tokens ''a2'' ''r2''),
        Fulfilled ex_ok, Fulfilled ex_ok]
       [bearer ''a0'' ex_config, bearer ''a0'' ex_reqB]"







text \<open>
  The decoding of four payload segments, \<^verbatim>\<open>{"exp":"99999999999"}\<close>,
  \<^verbatim>\<open>{"exp":2000000000}\<close>, \<^verbatim>\<open>{}\<close> and \<^verbatim>\<open>null\<close>, with every other segment
  taken not to parse; and the number that JavaScript makes of the string
  \<^verbatim>\<open>"99999999999"\<close>.
\<close>

definition ex_decode :: "string \<Rightarrow> json option" where
  "ex_decode seg =
     (if seg = ''eyJleHAiOiI5OTk5OTk5OTk5OSJ9'' then Some (JObj [(''exp'', JStr ''99999999999'')])
      else if seg = ''eyJleHAiOjIwMDAwMDAwMDB9'' then Some (JObj [(''exp'', JNum 2000000000)])
      else if seg = ''e30'' then Some (JObj [])
      else if seg = ''bnVsbA'' then Some JNull
      else None)"

definition ex_tonum :: "json \<Rightarrow> real option" where
  "ex_tonum v = (if v = JStr ''99999999999'' then Some 99999999999 else None)"

definition ex_string_exp_token :: string where
  "ex_string_exp_token = ''eyJhbGciOiJIUzI1NiJ9.eyJleHAiOiI5OTk5OTk5OTk5OSJ9.sig''"

definition ex_token :: string where
  "ex_token = ''eyJhbGciOiJIUzI1NiJ9.eyJleHAiOjIwMDAwMDAwMDB9.sig''"

section \<open>Properties of the offline queue\<close>

subsection \<open>The flush loop\<close>

lemma sync_loop_ok:
  "syncItem render api x w = (True, w') \<Longrightarrow>
   sync_loop render api (x # xs) failed w = sync_loop render api xs failed w'"
  by simp

lemma sync_loop_fail:
  "syncItem render api x w = (False, w') \<Longrightarrow>
   sync_loop render api (x # xs) failed w =
   sync_loop render api xs
     (if retries x + 1 < MAX_RETRIES then failed @ [x\<lparr>retries := retries x + 1\<rparr>] else failed) w'"
  by (simp add: Let_def)



lemma sync_loop_retries:
  "\<forall>i \<in> set failed. retries i < MAX_RETRIES \<Longrightarrow>
   \<forall>i \<in> set (fst (sync_loop render api xs failed w)). retries i < MAX_RETRIES"
proof (induction xs arbitrary: failed w)
  case Nil
  then show ?case by simp
next
  case (Cons x xs)
  obtain b w' where si: "syncItem render api x w = (b, w')"
    by (cases "syncItem render api x w") auto
  show ?case
  proof (cases b)
    case True
    with si have ok: "syncItem render api x w = (True, w')" by simp
    show ?thesis
      unfolding sync_loop_ok [OF ok] using Cons.prems by (rule Cons.IH)
  next
    case False
    with si have ko: "syncItem render api x w = (False, w')" by simp
    have "\<forall>i \<in> set (if retries x + 1 < MAX_RETRIES
                       then failed @ [x\<lparr>retries := retries x + 1\<rparr>] else failed).
            retries i < MAX_RETRIES"
      using Cons.prems by simp
    then show ?thesis
      unfolding sync_loop_fail [OF ko] by (rule Cons.IH)
  qed
qed

lemma filter_exhausted_empty:
  "\<forall>i \<in> set xs. retries i < MAX_RETRIES \<Longrightarrow> filter (\<lambda>i. retries i \<ge> MAX_RETRIES) xs = []"
  by (induction xs) auto

lemma sync_run:
  "\<not> isSyncing (syncStatus s) \<Longrightarrow>
   getQueue (fst (sync render api now s w)) = fst (sync_loop render api (getQueue s) [] w)"
  by (simp add: sync_def getQueue_def updateStatus_def Let_def case_prod_beta)

lemma sync_failedCount_zero:
  assumes ns: "\<not> isSyncing (syncStatus s)"
  shows "failedCount (getStatus (fst (sync render api now s w))) = 0"
proof -
  define q where "q = getQueue (updateStatus (\<lambda>st. st\<lparr>isSyncing := True\<rparr>) s)"
  have "\<forall>i \<in> set (fst (sync_loop render api q [] w)). retries i < MAX_RETRIES"
    by (rule sync_loop_retries) simp
  then have "filter (\<lambda>i. retries i \<ge> MAX_RETRIES) (fst (sync_loop render api q [] w)) = []"
    by (rule filter_exhausted_empty)
  then show ?thesis
    using ns by (simp add: sync_def getStatus_def updateStatus_def Let_def q_def case_prod_beta)
qed



lemma queue_inv_sync_run:
  "\<not> isSyncing (syncStatus s) \<Longrightarrow> queue_inv (fst (sync render api now s w))"
  by (simp add: queue_inv_def sync_def getStatus_def getQueue_def updateStatus_def Let_def
      case_prod_beta)

lemma sync_skipped: "isSyncing (syncStatus s) \<Longrightarrow> sync render api now s w = (s, w)"
  by (simp add: sync_def)

lemma ex_queued_eval:
  "ex_queued = \<lparr>syncStatus = initial_status\<lparr>pendingCount := 1\<rparr>,
                 stored_queue = Some [ex_update],
                 stored_status = Some (initial_status\<lparr>pendingCount := 1\<rparr>)\<rparr>"
  by (simp add: ex_queued_def addToQueue_def new_service_def getQueue_def updateStatus_def
      ex_update_def Let_def)

subsection \<open>Claims about the queue\<close>

text \<open>
  C7. A flush that starts while the in-memory status says a flush is running returns at
  once: the service object, both stored values and the remote world are what they were,
  whatever the client, so no entry is dispatched by it.
\<close>

theorem flush_while_syncing_is_noop:
  "isSyncing (syncStatus s) \<Longrightarrow> sync render api now s w = (s, w)"
  by (rule sync_skipped)

theorem flush_while_syncing_is_noop_witness:
  "isSyncing (syncStatus ex_syncing) \<and> getQueue ex_syncing = [ex_update]
   \<and> sync ex_render (failing_client 500) 10 ex_syncing [] = (ex_syncing, [])"
proof -
  have h: "isSyncing (syncStatus ex_syncing)"
    by (simp add: ex_syncing_def updateStatus_def Let_def)
  have q: "getQueue ex_syncing = [ex_update]"
    by (simp add: ex_syncing_def updateStatus_def ex_queued_eval getQueue_def Let_def)
  show ?thesis
    using h q flush_while_syncing_is_noop [OF h, of ex_render "failing_client 500" 10 "[]"]
    by simp
qed



text \<open>
  C2. An update is queued and every dispatch is rejected. After two flushes the entry
  is pending with \<open>retries = 2\<close>; the third flush raises \<open>retries\<close> to \<open>MAX_RETRIES\<close>
  and writes back a log without the entry, and \<open>failedCount\<close>, which is counted over
  the entries that were kept, is 0: the entry is in no bucket and no count.
\<close>

theorem exhausted_entry_is_dropped_uncounted:
  "getQueue (flush_failing (flush_failing ex_queued)) = [ex_update\<lparr>retries := 2\<rparr>]
   \<and> getQueue (flush_failing (flush_failing (flush_failing ex_queued))) = []
   \<and> pendingCount (getStatus (flush_failing (flush_failing (flush_failing ex_queued)))) = 0
   \<and> failedCount (getStatus (flush_failing (flush_failing (flush_failing ex_queued)))) = 0"
proof -
  have step: "\<And>n. n < 3 \<Longrightarrow> syncItem ex_render (failing_client 500) (ex_update\<lparr>retries := n\<rparr>) []
      = (False, [plain_request PUT ''/pets/p1'' (Some (JObj [(''id'', JStr ''p1'')]))])"
    by (simp add: syncItem_def ex_update_def failing_client_def Let_def)
  have f: "\<And>s. \<not> isSyncing (syncStatus s) \<Longrightarrow> \<not> isSyncing (syncStatus (flush_failing s))"
    by (simp add: flush_failing_def sync_def updateStatus_def Let_def case_prod_beta)
  have g: "\<And>s. \<not> isSyncing (syncStatus s) \<Longrightarrow>
      getQueue (flush_failing s) = fst (sync_loop ex_render (failing_client 500) (getQueue s) [] [])"
    by (simp add: flush_failing_def sync_run)
  have n0: "\<not> isSyncing (syncStatus ex_queued)"
    by (simp add: ex_queued_eval initial_status_def)
  have q0: "getQueue ex_queued = [ex_update\<lparr>retries := 0\<rparr>]"
    by (simp add: ex_queued_eval getQueue_def ex_update_def)
  have q1: "getQueue (flush_failing ex_queued) = [ex_update\<lparr>retries := 1\<rparr>]"
    using step [of 0] by (simp add: g n0 q0 MAX_RETRIES_def Let_def)
  have q2: "getQueue (flush_failing (flush_failing ex_queued)) = [ex_update\<lparr>retries := 2\<rparr>]"
    using step [of 1] by (simp add: g f n0 q1 MAX_RETRIES_def Let_def)
  have q3: "getQueue (flush_failing (flush_failing (flush_failing ex_queued))) = []"
    using step [of 2] by (simp add: g f n0 q2 MAX_RETRIES_def Let_def)
  have n3: "\<not> isSyncing (syncStatus (flush_failing (flush_failing ex_queued)))"
    by (simp add: f n0)
  have p3: "pendingCount (getStatus (flush_failing (flush_failing (flush_failing ex_queued)))) = 0"
    using queue_inv_sync_run [OF n3, of ex_render "failing_client 500" 10 "[]"] q3
    by (simp add: queue_inv_def flush_failing_def)
  have c3: "failedCount (getStatus (flush_failing (flush_failing (flush_failing ex_queued)))) = 0"
    using sync_failedCount_zero [OF n3, of ex_render "failing_client 500" 10 "[]"]
    by (simp add: flush_failing_def)
  show ?thesis using q2 q3 p3 c3 by simp
qed




section \<open>Properties of the request pipeline\<close>

lemmas ex_defs = scripted_def ex_config_def ex_reqB_def ex_pipeline_def ex_tokens_def ex_ok_def
  ex_no_refresh_token_def ex_refresh_rejected_def ex_retry_rejected_def ex_two_def bearer_def
  ex_both_failed_def ex_refresh_unauthorized_def
  submit_def requestInterceptor_def refresh_request_def plain_request_def token_fields_def
  clear_tokens_def store_tokens_def

lemma retry_requestInterceptor [simp]: "retry (requestInterceptor s config) = retry config"
  by (simp add: requestInterceptor_def split: option.splits)

lemma submit_calls:
  "submit tr req s = (rep, s1) \<Longrightarrow>
   calls s1 = calls s @ [req] \<and> access_token s1 = access_token s
   \<and> refresh_token s1 = refresh_token s"
  by (auto simp: submit_def split: prod.splits)

lemma calls_clear_tokens [simp]: "calls (clear_tokens s) = calls s"
  by (simp add: clear_tokens_def)

lemma calls_store_tokens [simp]: "calls (store_tokens a r s) = calls s"
  by (simp add: store_tokens_def)

text \<open>A request that carries the mark is submitted once and its result is the caller's.\<close>

lemma send_marked:
  assumes "retry config"
  shows "send (Suc n) tr config s =
    Some (settle (requestInterceptor s config) (fst (submit tr (requestInterceptor s config) s)),
          snd (submit tr (requestInterceptor s config) s))"
proof (cases "submit tr (requestInterceptor s config) s")
  case (Pair rep s1)
  then show ?thesis using assms by (cases rep) simp_all
qed

text \<open>The handler's path when the refresh resolved with a token pair.\<close>

lemma onRejected_refreshed:
  assumes nr: "\<not> retry req"
    and rt: "refresh_token s = Some rt" "rt \<noteq> []"
    and refreshed: "send n tr (refresh_request rt) s = Some (Resolved resp, s2)"
    and toks: "token_fields (data resp) = Some (a, r)"
  shows "onRejected n tr req (Some 401) s =
           Some (settle (req\<lparr>retry := True, authorization := Some (''Bearer '' @ a)\<rparr>)
                   (fst (submit tr (req\<lparr>retry := True, authorization := Some (''Bearer '' @ a)\<rparr>)
                           (store_tokens a r s2))),
                 snd (submit tr (req\<lparr>retry := True, authorization := Some (''Bearer '' @ a)\<rparr>)
                        (store_tokens a r s2)))"
proof -
  define R where "R = req\<lparr>retry := True, authorization := Some (''Bearer '' @ a)\<rparr>"
  define S where "S = store_tokens a r s2"
  obtain m where n: "n = Suc m"
    using refreshed by (cases n) simp_all
  have mk: "retry R"
    by (simp add: R_def)
  have same: "requestInterceptor S R = R"
    by (simp add: R_def S_def requestInterceptor_def store_tokens_def)
  have "onRejected n tr req (Some 401) s = send n tr R S"
    using nr rt refreshed toks by (simp add: R_def S_def)
  also have "\<dots> = Some (settle R (fst (submit tr R S)), snd (submit tr R S))"
    unfolding n using send_marked [OF mk, of m tr S] by (simp only: same)
  finally show ?thesis
    by (simp only: R_def S_def)
qed

text \<open>Every call that returns has handed its own request to the transport first.\<close>

lemma onRejected_calls:
  assumes sn: "\<And>config s out s'. send n tr config s = Some (out, s') \<Longrightarrow>
      \<exists>rest. calls s' = calls s @ requestInterceptor s config # rest"
    and h: "onRejected n tr req st s = Some (out, s')"
  shows "\<exists>rest. calls s' = calls s @ rest"
proof (cases "st = Some 401 \<and> \<not> retry req \<and> (\<exists>rt. refresh_token s = Some rt \<and> rt \<noteq> [])")
  case False
  with h have "s' = s"
    by (auto split: if_splits option.splits)
  then show ?thesis by simp
next
  case True
  then obtain rt where rt: "refresh_token s = Some rt" "rt \<noteq> []" by blast
  from True h rt obtain o2 s2 where r2: "send n tr (refresh_request rt) s = Some (o2, s2)"
    by (cases "send n tr (refresh_request rt) s") auto
  from sn [OF r2] obtain rest2 where c2: "calls s2 = calls s @ rest2" by auto
  show ?thesis
  proof (cases o2)
    case (Rejected e)
    with True h rt r2 have "s' = clear_tokens s2" by simp
    with c2 show ?thesis by simp
  next
    case (Resolved resp)
    show ?thesis
    proof (cases "token_fields (data resp)")
      case None
      with Resolved True h rt r2 have "s' = clear_tokens s2" by simp
      with c2 show ?thesis by simp
    next
      case (Some ar)
      obtain a r where ar: "ar = (a, r)" by (cases ar)
      from Some ar Resolved True h rt r2
      have "send n tr (req\<lparr>retry := True, authorization := Some (''Bearer '' @ a)\<rparr>)
              (store_tokens a r s2) = Some (out, s')"
        by simp
      from sn [OF this] c2 show ?thesis by auto
    qed
  qed
qed

lemma send_calls:
  "send n tr config s = Some (out, s') \<Longrightarrow>
   \<exists>rest. calls s' = calls s @ requestInterceptor s config # rest"
proof (induction n arbitrary: config s out s')
  case 0
  then show ?case by simp
next
  case (Suc n)
  obtain rep s1 where sb: "submit tr (requestInterceptor s config) s = (rep, s1)"
    by (cases "submit tr (requestInterceptor s config) s") auto
  note c1 = submit_calls [OF sb]
  show ?case
  proof (cases rep)
    case (Fulfilled resp)
    with Suc.prems sb c1 show ?thesis by simp
  next
    case (Failed st')
    with Suc.prems sb
    have "onRejected n tr (requestInterceptor s config) st' s1 = Some (out, s')"
      by simp
    from onRejected_calls [OF Suc.IH this] c1 show ?thesis by auto
  qed
qed

text \<open>
  The refresh is posted through the client itself, so a refresh request that is answered
  with 401 runs the handler again, with the refresh token still in the store: against a
  remote that answers every request with 401, a call for a request not yet retried does
  not settle, whatever the fuel.
\<close>

lemma refresh_call_always_401:
  "refresh_token s = Some rt \<Longrightarrow> rt \<noteq> [] \<Longrightarrow>
   send n always_401 (refresh_request rt) s = None"
proof (induction n arbitrary: s)
  case 0
  show ?case by simp
next
  case (Suc n)
  define s1 where "s1 = snd (submit always_401 (requestInterceptor s (refresh_request rt)) s)"
  have sb: "submit always_401 (requestInterceptor s (refresh_request rt)) s = (Failed (Some 401), s1)"
    by (simp add: s1_def submit_def always_401_def)
  have rt1: "refresh_token s1 = Some rt"
    using submit_calls [OF sb] Suc.prems by simp
  have nr: "\<not> retry (requestInterceptor s (refresh_request rt))"
    by (simp add: refresh_request_def plain_request_def)
  have "send n always_401 (refresh_request rt) s1 = None"
    using rt1 Suc.prems(2) by (rule Suc.IH)
  then show ?case
    using sb rt1 nr Suc.prems(2) by simp
qed

lemma always_401_never_settles:
  assumes "\<not> retry config" and "refresh_token s = Some rt" and "rt \<noteq> []"
  shows "send n always_401 config s = None"
proof (cases n)
  case 0
  then show ?thesis by simp
next
  case (Suc m)
  define s1 where "s1 = snd (submit always_401 (requestInterceptor s config) s)"
  have sb: "submit always_401 (requestInterceptor s config) s = (Failed (Some 401), s1)"
    by (simp add: s1_def submit_def always_401_def)
  have rt1: "refresh_token s1 = Some rt"
    using submit_calls [OF sb] assms by simp
  have "send m always_401 (refresh_request rt) s1 = None"
    using rt1 assms(3) by (rule refresh_call_always_401)
  then show ?thesis
    using Suc sb rt1 assms by simp
qed

subsection \<open>Claims about the pipeline\<close>

text \<open>
  C8. The first attempt of a request not yet retried is rejected with 401 and the store
  holds no refresh token. Then \<open>send\<close> returns, with any fuel, the rejection with the
  error of that attempt; the only request handed to the transport is that attempt, so
  none goes to the refresh endpoint, and the stored tokens are as they were.
\<close>

theorem missing_refresh_token_rejects_without_refresh:
  assumes first: "submit tr (requestInterceptor s config) s = (Failed (Some 401), s1)"
    and nr: "\<not> retry config"
    and nt: "refresh_token s = None"
  shows "send (Suc n) tr config s =
           Some (Rejected (AxiosError ((requestInterceptor s config)\<lparr>retry := True\<rparr>) (Some 401)), s1)
         \<and> calls s1 = calls s @ [requestInterceptor s config]
         \<and> access_token s1 = access_token s \<and> refresh_token s1 = None"
  using submit_calls [OF first] first nr nt by simp

theorem missing_refresh_token_rejects_without_refresh_witness:
  "submit scripted (requestInterceptor ex_no_refresh_token ex_config) ex_no_refresh_token =
     (Failed (Some 401), (ex_pipeline ''a0'' ''r0'' [] [bearer ''a0'' ex_config])\<lparr>refresh_token := None\<rparr>)
   \<and> \<not> retry ex_config \<and> refresh_token ex_no_refresh_token = None
   \<and> send (Suc 0) scripted ex_config ex_no_refresh_token =
       Some (Rejected (AxiosError ((bearer ''a0'' ex_config)\<lparr>retry := True\<rparr>) (Some 401)),
             (ex_pipeline ''a0'' ''r0'' [] [bearer ''a0'' ex_config])\<lparr>refresh_token := None\<rparr>)"
proof -
  have h1: "submit scripted (requestInterceptor ex_no_refresh_token ex_config) ex_no_refresh_token =
     (Failed (Some 401), (ex_pipeline ''a0'' ''r0'' [] [bearer ''a0'' ex_config])\<lparr>refresh_token := None\<rparr>)"
    by (simp add: ex_defs)
  have h2: "\<not> retry ex_config" by (simp add: ex_defs)
  have h3: "refresh_token ex_no_refresh_token = None" by (simp add: ex_defs)
  have r: "requestInterceptor ex_no_refresh_token ex_config = bearer ''a0'' ex_config"
    by (simp add: ex_defs)
  show ?thesis
    using h1 h2 h3 missing_refresh_token_rejects_without_refresh [OF h1 h2 h3, of 0]
    by (simp only: r) simp
qed




text \<open>
  C6. A request that carries the retry mark is handed to the transport once and
  whatever that attempt yields, a 401 included, is the caller's result: no refresh and
  no further submission follow. A request without the mark whose first attempt is
  rejected with 401, and whose refresh resolves with a token pair, is resubmitted with
  the mark and the new access token, and that one resubmission is the whole rest of the
  call: its result is the caller's result and its request is the last one handed to the
  transport. In every call that returns, the requests handed to the transport are the
  first attempt, then at most those of one call of the client for the refresh, then at
  most one resubmission of the marked request.
\<close>

theorem original_request_resubmitted_at_most_once:
  "(retry config \<longrightarrow>
      send (Suc n) tr config s =
        Some (settle (requestInterceptor s config)
                (fst (submit tr (requestInterceptor s config) s)),
              snd (submit tr (requestInterceptor s config) s))
      \<and> calls (snd (submit tr (requestInterceptor s config) s))
          = calls s @ [requestInterceptor s config])
   \<and> (\<not> retry config
      \<and> submit tr (requestInterceptor s config) s = (Failed (Some 401), s1)
      \<and> refresh_token s = Some rt \<and> rt \<noteq> []
      \<and> send n tr (refresh_request rt) s1 = Some (Resolved resp, s2)
      \<and> token_fields (data resp) = Some (a, r) \<longrightarrow>
      send (Suc n) tr config s =
        Some (settle ((requestInterceptor s config)\<lparr>retry := True,
                        authorization := Some (''Bearer '' @ a)\<rparr>)
                (fst (submit tr ((requestInterceptor s config)\<lparr>retry := True,
                        authorization := Some (''Bearer '' @ a)\<rparr>) (store_tokens a r s2))),
              snd (submit tr ((requestInterceptor s config)\<lparr>retry := True,
                        authorization := Some (''Bearer '' @ a)\<rparr>) (store_tokens a r s2)))
      \<and> calls (snd (submit tr ((requestInterceptor s config)\<lparr>retry := True,
                        authorization := Some (''Bearer '' @ a)\<rparr>) (store_tokens a r s2)))
          = calls s2 @ [(requestInterceptor s config)\<lparr>retry := True,
                        authorization := Some (''Bearer '' @ a)\<rparr>])
   \<and> (send (Suc n) tr config s = Some (out, s') \<longrightarrow>
        calls s' = calls s @ [requestInterceptor s config]
        \<or> (\<exists>rt' out2 s2'.
              send n tr (refresh_request rt') (snd (submit tr (requestInterceptor s config) s))
                = Some (out2, s2')
              \<and> (calls s' = calls s2'
                 \<or> (\<exists>a'. calls s' = calls s2' @ [(requestInterceptor s config)\<lparr>retry := True,
                                                  authorization := Some (''Bearer '' @ a')\<rparr>]))))"
proof -
  have grow: "\<And>q t. calls (snd (submit tr q t)) = calls t @ [q]"
    by (simp add: submit_def case_prod_beta)
  have marked: "retry config \<longrightarrow>
      send (Suc n) tr config s =
        Some (settle (requestInterceptor s config)
                (fst (submit tr (requestInterceptor s config) s)),
              snd (submit tr (requestInterceptor s config) s))"
    using send_marked [of config n tr s] by blast
  have unmarked: "send (Suc n) tr config s =
        Some (settle ((requestInterceptor s config)\<lparr>retry := True,
                        authorization := Some (''Bearer '' @ a)\<rparr>)
                (fst (submit tr ((requestInterceptor s config)\<lparr>retry := True,
                        authorization := Some (''Bearer '' @ a)\<rparr>) (store_tokens a r s2))),
              snd (submit tr ((requestInterceptor s config)\<lparr>retry := True,
                        authorization := Some (''Bearer '' @ a)\<rparr>) (store_tokens a r s2)))"
    if nr: "\<not> retry config"
      and first: "submit tr (requestInterceptor s config) s = (Failed (Some 401), s1)"
      and rt: "refresh_token s = Some rt" "rt \<noteq> []"
      and refreshed: "send n tr (refresh_request rt) s1 = Some (Resolved resp, s2)"
      and toks: "token_fields (data resp) = Some (a, r)"
  proof -
    have nr1: "\<not> retry (requestInterceptor s config)"
      using nr by simp
    have rt1: "refresh_token s1 = Some rt"
      using submit_calls [OF first] rt by simp
    have "send (Suc n) tr config s = onRejected n tr (requestInterceptor s config) (Some 401) s1"
      using first by simp
    then show ?thesis
      by (simp only: onRejected_refreshed [OF nr1 rt1 rt(2) refreshed toks])
  qed
  have g1: "calls (snd (submit tr (requestInterceptor s config) s))
          = calls s @ [requestInterceptor s config]"
    by (rule grow)
  have g2: "calls (snd (submit tr ((requestInterceptor s config)\<lparr>retry := True,
                        authorization := Some (''Bearer '' @ a)\<rparr>) (store_tokens a r s2)))
          = calls s2 @ [(requestInterceptor s config)\<lparr>retry := True,
                        authorization := Some (''Bearer '' @ a)\<rparr>]"
    by (simp only: grow calls_store_tokens)
  have all_calls: "calls s' = calls s @ [requestInterceptor s config]
        \<or> (\<exists>rt' out2 s2'.
              send n tr (refresh_request rt') (snd (submit tr (requestInterceptor s config) s))
                = Some (out2, s2')
              \<and> (calls s' = calls s2'
                 \<or> (\<exists>a'. calls s' = calls s2' @ [(requestInterceptor s config)\<lparr>retry := True,
                                                  authorization := Some (''Bearer '' @ a')\<rparr>])))"
    if ret: "send (Suc n) tr config s = Some (out, s')"
  proof -
    define req where "req = requestInterceptor s config"
    obtain rep t1 where sb: "submit tr req s = (rep, t1)"
      by (cases "submit tr req s") auto
    have c1: "calls t1 = calls s @ [req]"
      using submit_calls [OF sb] by simp
    show ?thesis
    proof (cases rep)
      case (Fulfilled resp')
      with ret sb have "s' = t1" by (simp add: req_def)
      with c1 show ?thesis by (simp add: req_def)
    next
      case (Failed st)
      with ret sb have h: "onRejected n tr req st t1 = Some (out, s')"
        by (simp add: req_def)
      show ?thesis
      proof (cases "st = Some 401 \<and> \<not> retry req
                    \<and> (\<exists>x. refresh_token t1 = Some x \<and> x \<noteq> [])")
        case False
        with h have "s' = t1"
          by (auto split: if_splits option.splits)
        with c1 show ?thesis by (simp add: req_def)
      next
        case True
        then obtain x where x: "refresh_token t1 = Some x" "x \<noteq> []" by blast
        from True have st: "st = Some 401" and nrq: "\<not> retry req" by simp_all
        from True h x obtain o2 t2 where r2: "send n tr (refresh_request x) t1 = Some (o2, t2)"
          by (cases "send n tr (refresh_request x) t1") auto
        have t1: "t1 = snd (submit tr (requestInterceptor s config) s)"
          using sb by (simp add: req_def)
        have "calls s' = calls t2
              \<or> (\<exists>a'. calls s' = calls t2 @ [req\<lparr>retry := True,
                                          authorization := Some (''Bearer '' @ a')\<rparr>])"
        proof (cases o2)
          case (Rejected e)
          with True h x r2 have "s' = clear_tokens t2" by simp
          then show ?thesis by simp
        next
          case (Resolved resp')
          show ?thesis
          proof (cases "token_fields (data resp')")
            case None
            with Resolved True h x r2 have "s' = clear_tokens t2" by simp
            then show ?thesis by simp
          next
            case (Some ar)
            obtain a' r' where ar: "ar = (a', r')" by (cases ar)
            have r2': "send n tr (refresh_request x) t1 = Some (Resolved resp', t2)"
              using r2 Resolved by simp
            have tk: "token_fields (data resp') = Some (a', r')"
              using Some ar by simp
            from h onRejected_refreshed [OF nrq x r2' tk]
            have "s' = snd (submit tr (req\<lparr>retry := True,
                        authorization := Some (''Bearer '' @ a')\<rparr>) (store_tokens a' r' t2))"
              by (simp only: st option.inject prod.inject)
            then have "calls s' = calls t2 @ [req\<lparr>retry := True,
                                          authorization := Some (''Bearer '' @ a')\<rparr>]"
              by (simp only: grow calls_store_tokens)
            then show ?thesis by blast
          qed
        qed
        with r2 show ?thesis
          unfolding t1 req_def by blast
      qed
    qed
  qed
  show ?thesis
    using marked unmarked g1 g2 all_calls by blast
qed

theorem original_request_resubmitted_at_most_once_witness:
  "retry (ex_config\<lparr>retry := True\<rparr>)
   \<and> send (Suc 0) scripted (ex_config\<lparr>retry := True\<rparr>)
         (ex_pipeline ''a1'' ''r1'' [Failed (Some 401), Fulfilled ex_ok] []) =
       Some (Rejected (AxiosError ((bearer ''a1'' ex_config)\<lparr>retry := True\<rparr>) (Some 401)),
             ex_pipeline ''a1'' ''r1'' [Fulfilled ex_ok] [(bearer ''a1'' ex_config)\<lparr>retry := True\<rparr>])
   \<and> \<not> retry ex_config
   \<and> submit scripted (requestInterceptor ex_retry_rejected ex_config) ex_retry_rejected =
       (Failed (Some 401),
        ex_pipeline ''a0'' ''r0''
          [Fulfilled (ex_tokens ''a1'' ''r1''), Failed (Some 401), Fulfilled ex_ok]
          [bearer ''a0'' ex_config])
   \<and> refresh_token ex_retry_rejected = Some ''r0'' \<and> ''r0'' \<noteq> []
   \<and> send (Suc 0) scripted (refresh_request ''r0'')
         (ex_pipeline ''a0'' ''r0''
            [Fulfilled (ex_tokens ''a1'' ''r1''), Failed (Some 401), Fulfilled ex_ok]
            [bearer ''a0'' ex_config]) =
       Some (Resolved (ex_tokens ''a1'' ''r1''),
             ex_pipeline ''a0'' ''r0'' [Failed (Some 401), Fulfilled ex_ok]
               [bearer ''a0'' ex_config, bearer ''a0'' (refresh_request ''r0'')])
   \<and> token_fields (data (ex_tokens ''a1'' ''r1'')) = Some (''a1'', ''r1'')
   \<and> send (Suc (Suc 0)) scripted ex_config ex_retry_rejected =
       Some (Rejected (AxiosError ((bearer ''a1'' ex_config)\<lparr>retry := True\<rparr>) (Some 401)),
             ex_pipeline ''a1'' ''r1'' [Fulfilled ex_ok]
               [bearer ''a0'' ex_config, bearer ''a0'' (refresh_request ''r0''),
                (bearer ''a1'' ex_config)\<lparr>retry := True\<rparr>])"
proof -
  have m1: "retry (ex_config\<lparr>retry := True\<rparr>)" by simp
  have h1: "\<not> retry ex_config" by (simp add: ex_defs)
  have h2: "submit scripted (requestInterceptor ex_retry_rejected ex_config) ex_retry_rejected =
       (Failed (Some 401),
        ex_pipeline ''a0'' ''r0''
          [Fulfilled (ex_tokens ''a1'' ''r1''), Failed (Some 401), Fulfilled ex_ok]
          [bearer ''a0'' ex_config])"
    by (simp add: ex_defs)
  have h3: "refresh_token ex_retry_rejected = Some ''r0''" by (simp add: ex_defs)
  have h4: "send (Suc 0) scripted (refresh_request ''r0'')
         (ex_pipeline ''a0'' ''r0''
            [Fulfilled (ex_tokens ''a1'' ''r1''), Failed (Some 401), Fulfilled ex_ok]
            [bearer ''a0'' ex_config]) =
       Some (Resolved (ex_tokens ''a1'' ''r1''),
             ex_pipeline ''a0'' ''r0'' [Failed (Some 401), Fulfilled ex_ok]
               [bearer ''a0'' ex_config, bearer ''a0'' (refresh_request ''r0'')])"
    by (simp add: ex_defs)
  have h5: "token_fields (data (ex_tokens ''a1'' ''r1'')) = Some (''a1'', ''r1'')"
    by (simp add: ex_defs)
  have a: "send (Suc 0) scripted (ex_config\<lparr>retry := True\<rparr>)
         (ex_pipeline ''a1'' ''r1'' [Failed (Some 401), Fulfilled ex_ok] []) =
       Some (Rejected (AxiosError ((bearer ''a1'' ex_config)\<lparr>retry := True\<rparr>) (Some 401)),
             ex_pipeline ''a1'' ''r1'' [Fulfilled ex_ok] [(bearer ''a1'' ex_config)\<lparr>retry := True\<rparr>])"
    using m1 original_request_resubmitted_at_most_once [where config = "ex_config\<lparr>retry := True\<rparr>"
        and n = 0 and tr = scripted
        and s = "ex_pipeline ''a1'' ''r1'' [Failed (Some 401), Fulfilled ex_ok] []"]
    by (simp add: ex_defs)
  have b: "send (Suc (Suc 0)) scripted ex_config ex_retry_rejected =
       Some (Rejected (AxiosError ((bearer ''a1'' ex_config)\<lparr>retry := True\<rparr>) (Some 401)),
             ex_pipeline ''a1'' ''r1'' [Fulfilled ex_ok]
               [bearer ''a0'' ex_config, bearer ''a0'' (refresh_request ''r0''),
                (bearer ''a1'' ex_config)\<lparr>retry := True\<rparr>])"
    using h1 h2 h3 h4 h5
      original_request_resubmitted_at_most_once [where config = ex_config
        and n = "Suc 0" and tr = scripted and s = ex_retry_rejected and rt = "''r0''"
        and resp = "ex_tokens ''a1'' ''r1''" and a = "''a1''" and r = "''r1''"
        and ?s1.0 = "ex_pipeline ''a0'' ''r0''
          [Fulfilled (ex_tokens ''a1'' ''r1''), Failed (Some 401), Fulfilled ex_ok]
          [bearer ''a0'' ex_config]"
        and ?s2.0 = "ex_pipeline ''a0'' ''r0'' [Failed (Some 401), Fulfilled ex_ok]
               [bearer ''a0'' ex_config, bearer ''a0'' (refresh_request ''r0'')]"]
    by (simp add: ex_defs)
  show ?thesis
    using m1 h1 h2 h3 h4 h5 a b by simp
qed

text \<open>
  C4, as stated, fails. Two requests are in flight with the same access token and both
  are rejected with 401 before either handler has started its refresh. The handlers share
  nothing but the token store, so running one after the other is one of the orders the
  event loop allows. Each of them posts to the refresh endpoint: the log of the transport
  ends with two refresh requests, not one.
\<close>

theorem two_failures_two_refresh_calls_counterexample:
  "submit scripted (requestInterceptor ex_two ex_config) ex_two =
     (Failed (Some 401),
      ex_pipeline ''a0'' ''r0''
        [Failed (Some 401), Fulfilled (ex_tokens ''a1'' ''r1''), Fulfilled ex_ok,
         Fulfilled (ex_tokens ''a2'' ''r2''), Fulfilled ex_ok]
        [bearer ''a0'' ex_config])
   \<and> submit scripted
        (requestInterceptor
           (ex_pipeline ''a0'' ''r0''
              [Failed (Some 401), Fulfilled (ex_tokens ''a1'' ''r1''), Fulfilled ex_ok,
               Fulfilled (ex_tokens ''a2'' ''r2''), Fulfilled ex_ok]
              [bearer ''a0'' ex_config]) ex_reqB)
        (ex_pipeline ''a0'' ''r0''
           [Failed (Some 401), Fulfilled (ex_tokens ''a1'' ''r1''), Fulfilled ex_ok,
            Fulfilled (ex_tokens ''a2'' ''r2''), Fulfilled ex_ok]
           [bearer ''a0'' ex_config]) =
     (Failed (Some 401),
      ex_pipeline ''a0'' ''r0''
        [Fulfilled (ex_tokens ''a1'' ''r1''), Fulfilled ex_ok,
         Fulfilled (ex_tokens ''a2'' ''r2''), Fulfilled ex_ok]
        [bearer ''a0'' ex_config, bearer ''a0'' ex_reqB])
   \<and> onRejected (Suc 0) scripted (bearer ''a0'' ex_config) (Some 401)
        (ex_pipeline ''a0'' ''r0''
           [Fulfilled (ex_tokens ''a1'' ''r1''), Fulfilled ex_ok,
            Fulfilled (ex_tokens ''a2'' ''r2''), Fulfilled ex_ok]
           [bearer ''a0'' ex_config, bearer ''a0'' ex_reqB]) =
     Some (Resolved ex_ok,
           ex_pipeline ''a1'' ''r1'' [Fulfilled (ex_tokens ''a2'' ''r2''), Fulfilled ex_ok]
             [bearer ''a0'' ex_config, bearer ''a0'' ex_reqB,
              bearer ''a0'' (refresh_request ''r0''), (bearer ''a1'' ex_config)\<lparr>retry := True\<rparr>])
   \<and> onRejected (Suc 0) scripted (bearer ''a0'' ex_reqB) (Some 401)
        (ex_pipeline ''a1'' ''r1'' [Fulfilled (ex_tokens ''a2'' ''r2''), Fulfilled ex_ok]
           [bearer ''a0'' ex_config, bearer ''a0'' ex_reqB,
            bearer ''a0'' (refresh_request ''r0''), (bearer ''a1'' ex_config)\<lparr>retry := True\<rparr>]) =
     Some (Resolved ex_ok,
           ex_pipeline ''a2'' ''r2'' []
             [bearer ''a0'' ex_config, bearer ''a0'' ex_reqB,
              bearer ''a0'' (refresh_request ''r0''), (bearer ''a1'' ex_config)\<lparr>retry := True\<rparr>,
              bearer ''a1'' (refresh_request ''r1''), (bearer ''a2'' ex_reqB)\<lparr>retry := True\<rparr>])"
  by (simp add: ex_defs)

text \<open>The steps of one handler, run without anything in between, are \<open>onRejected\<close>.\<close>

lemma handler_run_onRejected:
  "handler_run (Suc (Suc (Suc (Suc 0)))) n tr (Entered req st) s =
     (case onRejected n tr req st s of
        None \<Rightarrow> None
      | Some (out, s') \<Rightarrow> Some (Settled out, s'))"
  by (auto split: option.splits outcome.splits prod.splits)

text \<open>
  C4, amended. There is no shared refresh in flight. The handler of every 401 on a
  request that is not marked as retried, reading a refresh token from the store, makes
  its own call to the refresh endpoint with the token it read, so two concurrent failures
  give two refresh calls. When its call resolves with a token pair the handler stores
  the pair and resubmits its original request once, marked as retried. The resubmission
  passes the request interceptor again, so it carries the access token that the store
  holds at that moment, which is the one of the handler's own refresh only if no other
  handler has stored a pair in between or the store holds none; the result of that
  attempt is the caller's result. Each step is stated for the store as it is when the
  step runs, whatever other handlers have done to it before.
\<close>

theorem each_failure_refreshes_on_its_own:
  "(\<not> retry req \<and> refresh_token s = Some rt \<and> rt \<noteq> [] \<longrightarrow>
      handler_step n tr (Entered req (Some 401)) s = Some (TokenRead (req\<lparr>retry := True\<rparr>) rt, s))
   \<and> (send n tr (refresh_request rt) t = Some (Resolved resp, t2) \<longrightarrow>
        handler_step n tr (TokenRead rq rt) t = Some (RefreshDone rq resp, t2)
        \<and> (\<exists>rest. calls t2 = calls t @ requestInterceptor t (refresh_request rt) # rest))
   \<and> (token_fields (data resp) = Some (a, r) \<longrightarrow>
        handler_step n tr (RefreshDone rq resp) u = Some (TokensStored rq a, store_tokens a r u))
   \<and> (retry rq \<longrightarrow>
        handler_step (Suc n) tr (TokensStored rq a) v =
          Some (Settled (settle
                  (requestInterceptor v (rq\<lparr>authorization := Some (''Bearer '' @ a)\<rparr>))
                  (fst (submit tr
                     (requestInterceptor v (rq\<lparr>authorization := Some (''Bearer '' @ a)\<rparr>)) v))),
                snd (submit tr
                  (requestInterceptor v (rq\<lparr>authorization := Some (''Bearer '' @ a)\<rparr>)) v))
        \<and> calls (snd (submit tr
                  (requestInterceptor v (rq\<lparr>authorization := Some (''Bearer '' @ a)\<rparr>)) v))
            = calls v @ [requestInterceptor v (rq\<lparr>authorization := Some (''Bearer '' @ a)\<rparr>)])
   \<and> (access_token v = Some tok \<and> tok \<noteq> [] \<longrightarrow>
        requestInterceptor v (rq\<lparr>authorization := Some (''Bearer '' @ a)\<rparr>)
          = rq\<lparr>authorization := Some (''Bearer '' @ tok)\<rparr>)
   \<and> (access_token v = None \<or> access_token v = Some [] \<longrightarrow>
        requestInterceptor v (rq\<lparr>authorization := Some (''Bearer '' @ a)\<rparr>)
          = rq\<lparr>authorization := Some (''Bearer '' @ a)\<rparr>)"
proof -
  have p1: "\<not> retry req \<and> refresh_token s = Some rt \<and> rt \<noteq> [] \<longrightarrow>
      handler_step n tr (Entered req (Some 401)) s = Some (TokenRead (req\<lparr>retry := True\<rparr>) rt, s)"
    by simp
  have p2: "send n tr (refresh_request rt) t = Some (Resolved resp, t2) \<longrightarrow>
        handler_step n tr (TokenRead rq rt) t = Some (RefreshDone rq resp, t2)
        \<and> (\<exists>rest. calls t2 = calls t @ requestInterceptor t (refresh_request rt) # rest)"
    using send_calls [of n tr "refresh_request rt" t "Resolved resp" t2] by simp
  have p3: "token_fields (data resp) = Some (a, r) \<longrightarrow>
        handler_step n tr (RefreshDone rq resp) u = Some (TokensStored rq a, store_tokens a r u)"
    by simp
  define Q where "Q = requestInterceptor v (rq\<lparr>authorization := Some (''Bearer '' @ a)\<rparr>)"
  have p4: "retry rq \<longrightarrow>
        handler_step (Suc n) tr (TokensStored rq a) v =
          Some (Settled (settle Q (fst (submit tr Q v))), snd (submit tr Q v))"
  proof
    assume "retry rq"
    then have mk: "retry (rq\<lparr>authorization := Some (''Bearer '' @ a)\<rparr>)" by simp
    have "handler_step (Suc n) tr (TokensStored rq a) v =
        (case send (Suc n) tr (rq\<lparr>authorization := Some (''Bearer '' @ a)\<rparr>) v of
           None \<Rightarrow> None | Some (out, s') \<Rightarrow> Some (Settled out, s'))"
      by (simp only: handler_step.simps)
    also have "\<dots> = Some (Settled (settle Q (fst (submit tr Q v))), snd (submit tr Q v))"
      by (simp only: send_marked [OF mk] Q_def option.case prod.case)
    finally show "handler_step (Suc n) tr (TokensStored rq a) v =
          Some (Settled (settle Q (fst (submit tr Q v))), snd (submit tr Q v))" .
  qed
  have p5: "calls (snd (submit tr Q v)) = calls v @ [Q]"
    by (simp add: submit_def case_prod_beta)
  have p6: "access_token v = Some tok \<and> tok \<noteq> [] \<longrightarrow>
        Q = rq\<lparr>authorization := Some (''Bearer '' @ tok)\<rparr>"
    by (simp add: Q_def requestInterceptor_def)
  have p7: "access_token v = None \<or> access_token v = Some [] \<longrightarrow>
        Q = rq\<lparr>authorization := Some (''Bearer '' @ a)\<rparr>"
    by (auto simp: Q_def requestInterceptor_def)
  show ?thesis
    using p1 p2 p3 p4 p5 p6 p7 unfolding Q_def by blast
qed

theorem each_failure_refreshes_on_its_own_witness:
  "\<not> retry (bearer ''a0'' ex_config) \<and> refresh_token ex_both_failed = Some ''r0'' \<and> ''r0'' \<noteq> []
   \<and> handler_step (Suc 0) scripted (Entered (bearer ''a0'' ex_config) (Some 401)) ex_both_failed =
       Some (TokenRead ((bearer ''a0'' ex_config)\<lparr>retry := True\<rparr>) ''r0'', ex_both_failed)
   \<and> send (Suc 0) scripted (refresh_request ''r0'') ex_both_failed =
       Some (Resolved (ex_tokens ''a1'' ''r1''),
             ex_pipeline ''a0'' ''r0''
               [Fulfilled (ex_tokens ''a2'' ''r2''), Fulfilled ex_ok, Fulfilled ex_ok]
               [bearer ''a0'' ex_config, bearer ''a0'' ex_reqB,
                bearer ''a0'' (refresh_request ''r0'')])
   \<and> handler_step (Suc 0) scripted
         (TokenRead ((bearer ''a0'' ex_config)\<lparr>retry := True\<rparr>) ''r0'') ex_both_failed =
       Some (RefreshDone ((bearer ''a0'' ex_config)\<lparr>retry := True\<rparr>) (ex_tokens ''a1'' ''r1''),
             ex_pipeline ''a0'' ''r0''
               [Fulfilled (ex_tokens ''a2'' ''r2''), Fulfilled ex_ok, Fulfilled ex_ok]
               [bearer ''a0'' ex_config, bearer ''a0'' ex_reqB,
                bearer ''a0'' (refresh_request ''r0'')])
   \<and> token_fields (data (ex_tokens ''a1'' ''r1'')) = Some (''a1'', ''r1'')
   \<and> handler_step (Suc 0) scripted
         (RefreshDone ((bearer ''a0'' ex_config)\<lparr>retry := True\<rparr>) (ex_tokens ''a1'' ''r1''))
         (ex_pipeline ''a0'' ''r0''
            [Fulfilled (ex_tokens ''a2'' ''r2''), Fulfilled ex_ok, Fulfilled ex_ok]
            [bearer ''a0'' ex_config, bearer ''a0'' ex_reqB,
             bearer ''a0'' (refresh_request ''r0'')]) =
       Some (TokensStored ((bearer ''a0'' ex_config)\<lparr>retry := True\<rparr>) ''a1'',
             ex_pipeline ''a1'' ''r1''
               [Fulfilled (ex_tokens ''a2'' ''r2''), Fulfilled ex_ok, Fulfilled ex_ok]
               [bearer ''a0'' ex_config, bearer ''a0'' ex_reqB,
                bearer ''a0'' (refresh_request ''r0'')])
   \<and> retry ((bearer ''a0'' ex_config)\<lparr>retry := True\<rparr>)
   \<and> access_token (ex_pipeline ''a2'' ''r2'' [Fulfilled ex_ok, Fulfilled ex_ok]
         [bearer ''a0'' ex_config, bearer ''a0'' ex_reqB,
          bearer ''a0'' (refresh_request ''r0''), bearer ''a1'' (refresh_request ''r0'')])
       = Some ''a2''
   \<and> ''a2'' \<noteq> []
   \<and> handler_step (Suc 0) scripted
         (TokensStored ((bearer ''a0'' ex_config)\<lparr>retry := True\<rparr>) ''a1'')
         (ex_pipeline ''a2'' ''r2'' [Fulfilled ex_ok, Fulfilled ex_ok]
            [bearer ''a0'' ex_config, bearer ''a0'' ex_reqB,
             bearer ''a0'' (refresh_request ''r0''), bearer ''a1'' (refresh_request ''r0'')]) =
       Some (Settled (Resolved ex_ok),
             ex_pipeline ''a2'' ''r2'' [Fulfilled ex_ok]
               [bearer ''a0'' ex_config, bearer ''a0'' ex_reqB,
                bearer ''a0'' (refresh_request ''r0''), bearer ''a1'' (refresh_request ''r0''),
                (bearer ''a2'' ex_config)\<lparr>retry := True\<rparr>])
   \<and> interleave [True, False, True, True, False, False, True, False] (Suc 0) scripted
        (Entered (bearer ''a0'' ex_config) (Some 401)) (Entered (bearer ''a0'' ex_reqB) (Some 401))
        ex_both_failed =
       Some (Settled (Resolved ex_ok), Settled (Resolved ex_ok),
             ex_pipeline ''a2'' ''r2'' []
               [bearer ''a0'' ex_config, bearer ''a0'' ex_reqB,
                bearer ''a0'' (refresh_request ''r0''), bearer ''a1'' (refresh_request ''r0''),
                (bearer ''a2'' ex_config)\<lparr>retry := True\<rparr>,
                (bearer ''a2'' ex_reqB)\<lparr>retry := True\<rparr>])"
proof -
  define A where "A = (bearer ''a0'' ex_config)\<lparr>retry := True\<rparr>"
  define S2 where "S2 = ex_pipeline ''a0'' ''r0''
               [Fulfilled (ex_tokens ''a2'' ''r2''), Fulfilled ex_ok, Fulfilled ex_ok]
               [bearer ''a0'' ex_config, bearer ''a0'' ex_reqB,
                bearer ''a0'' (refresh_request ''r0'')]"
  define V where "V = ex_pipeline ''a2'' ''r2'' [Fulfilled ex_ok, Fulfilled ex_ok]
            [bearer ''a0'' ex_config, bearer ''a0'' ex_reqB,
             bearer ''a0'' (refresh_request ''r0''), bearer ''a1'' (refresh_request ''r0'')]"
  have h1: "\<not> retry (bearer ''a0'' ex_config) \<and> refresh_token ex_both_failed = Some ''r0''
            \<and> ''r0'' \<noteq> []"
    by (simp add: ex_defs)
  have s1: "handler_step (Suc 0) scripted (Entered (bearer ''a0'' ex_config) (Some 401))
              ex_both_failed = Some (TokenRead A ''r0'', ex_both_failed)"
    using h1 each_failure_refreshes_on_its_own [where req = "bearer ''a0'' ex_config"
        and s = ex_both_failed and rt = "''r0''" and n = "Suc 0" and tr = scripted]
    unfolding A_def by blast
  have h2: "send (Suc 0) scripted (refresh_request ''r0'') ex_both_failed =
       Some (Resolved (ex_tokens ''a1'' ''r1''), S2)"
    by (simp add: ex_defs S2_def)
  have s2: "handler_step (Suc 0) scripted (TokenRead A ''r0'') ex_both_failed =
       Some (RefreshDone A (ex_tokens ''a1'' ''r1''), S2)"
    using h2 each_failure_refreshes_on_its_own [where rt = "''r0''" and t = ex_both_failed
        and resp = "ex_tokens ''a1'' ''r1''" and ?t2.0 = S2 and rq = A and n = "Suc 0"
        and tr = scripted]
    by blast
  have h3: "token_fields (data (ex_tokens ''a1'' ''r1'')) = Some (''a1'', ''r1'')"
    by (simp add: ex_defs)
  have "handler_step (Suc 0) scripted (RefreshDone A (ex_tokens ''a1'' ''r1'')) S2 =
       Some (TokensStored A ''a1'', store_tokens ''a1'' ''r1'' S2)"
    using h3 each_failure_refreshes_on_its_own [where resp = "ex_tokens ''a1'' ''r1''"
        and a = "''a1''" and r = "''r1''" and rq = A and u = S2 and n = "Suc 0"
        and tr = scripted]
    by blast
  moreover have "store_tokens ''a1'' ''r1'' S2 = ex_pipeline ''a1'' ''r1''
               [Fulfilled (ex_tokens ''a2'' ''r2''), Fulfilled ex_ok, Fulfilled ex_ok]
               [bearer ''a0'' ex_config, bearer ''a0'' ex_reqB,
                bearer ''a0'' (refresh_request ''r0'')]"
    by (simp add: S2_def ex_defs)
  ultimately have s3: "handler_step (Suc 0) scripted (RefreshDone A (ex_tokens ''a1'' ''r1'')) S2 =
       Some (TokensStored A ''a1'', ex_pipeline ''a1'' ''r1''
               [Fulfilled (ex_tokens ''a2'' ''r2''), Fulfilled ex_ok, Fulfilled ex_ok]
               [bearer ''a0'' ex_config, bearer ''a0'' ex_reqB,
                bearer ''a0'' (refresh_request ''r0'')])"
    by simp
  have h4: "retry A" by (simp add: A_def)
  have h5: "access_token V = Some ''a2'' \<and> ''a2'' \<noteq> []"
    by (simp add: V_def ex_defs)
  have q: "requestInterceptor V (A\<lparr>authorization := Some (''Bearer '' @ ''a1'')\<rparr>)
           = A\<lparr>authorization := Some (''Bearer '' @ ''a2'')\<rparr>"
    using h5 each_failure_refreshes_on_its_own [where v = V and tok = "''a2''" and rq = A
        and a = "''a1''"]
    by blast
  have "handler_step (Suc 0) scripted (TokensStored A ''a1'') V =
          Some (Settled (settle
                  (requestInterceptor V (A\<lparr>authorization := Some (''Bearer '' @ ''a1'')\<rparr>))
                  (fst (submit scripted
                     (requestInterceptor V (A\<lparr>authorization := Some (''Bearer '' @ ''a1'')\<rparr>)) V))),
                snd (submit scripted
                  (requestInterceptor V (A\<lparr>authorization := Some (''Bearer '' @ ''a1'')\<rparr>)) V))"
    using h4 each_failure_refreshes_on_its_own [where rq = A and a = "''a1''" and v = V
        and n = 0 and tr = scripted]
    by blast
  then have s4: "handler_step (Suc 0) scripted (TokensStored A ''a1'') V =
       Some (Settled (Resolved ex_ok),
             ex_pipeline ''a2'' ''r2'' [Fulfilled ex_ok]
               [bearer ''a0'' ex_config, bearer ''a0'' ex_reqB,
                bearer ''a0'' (refresh_request ''r0''), bearer ''a1'' (refresh_request ''r0''),
                (bearer ''a2'' ex_config)\<lparr>retry := True\<rparr>])"
    unfolding q by (simp add: A_def V_def ex_defs)
  have il: "interleave [True, False, True, True, False, False, True, False] (Suc 0) scripted
        (Entered (bearer ''a0'' ex_config) (Some 401)) (Entered (bearer ''a0'' ex_reqB) (Some 401))
        ex_both_failed =
       Some (Settled (Resolved ex_ok), Settled (Resolved ex_ok),
             ex_pipeline ''a2'' ''r2'' []
               [bearer ''a0'' ex_config, bearer ''a0'' ex_reqB,
                bearer ''a0'' (refresh_request ''r0''), bearer ''a1'' (refresh_request ''r0''),
                (bearer ''a2'' ex_config)\<lparr>retry := True\<rparr>,
                (bearer ''a2'' ex_reqB)\<lparr>retry := True\<rparr>])"
    by (simp add: ex_defs)
  show ?thesis
    using h1 s1 h2 s2 h3 s3 h4 h5 s4 il unfolding A_def S2_def V_def by blast
qed

section \<open>Properties of conflict resolution\<close>









section \<open>Properties of token validation\<close>

lemma split_ex_string_exp_token:
  "split_on CHR ''.'' ex_string_exp_token =
     [''eyJhbGciOiJIUzI1NiJ9'', ''eyJleHAiOiI5OTk5OTk5OTk5OSJ9'', ''sig'']"
  by (simp add: ex_string_exp_token_def)

lemma split_ex_token:
  "split_on CHR ''.'' ex_token =
     [''eyJhbGciOiJIUzI1NiJ9'', ''eyJleHAiOjIwMDAwMDAwMDB9'', ''sig'']"
  by (simp add: ex_token_def)

text \<open>
  C9, as stated, fails: the token has three segments and its middle segment decodes to
  the object \<^verbatim>\<open>{"exp":"99999999999"}\<close>, whose \<^verbatim>\<open>exp\<close> is a string and not a number. The
  comparison converts the string to the number 99999999999, which is greater than the
  current time, and the token is accepted.
\<close>

theorem string_exp_accepted_counterexample:
  "split_on CHR ''.'' ex_string_exp_token =
     [''eyJhbGciOiJIUzI1NiJ9'', ''eyJleHAiOiI5OTk5OTk5OTk5OSJ9'', ''sig'']
   \<and> decodeToken ex_decode ex_string_exp_token = Some (JObj [(''exp'', JStr ''99999999999'')])
   \<and> validateToken ex_decode ex_tonum ex_string_exp_token 1700000000000"
proof -
  have ne: "ex_string_exp_token \<noteq> []"
    by (simp add: ex_string_exp_token_def)
  show ?thesis
    using ne
    by (simp add: validateToken_def decodeToken_def split_ex_string_exp_token ex_decode_def
        ex_tonum_def greater_than_def)
qed

text \<open>
  C9, amended. A token that does not split into exactly three dot-separated segments,
  or whose middle segment does not decode to JSON, or decodes to null or to a value
  without an \<^verbatim>\<open>exp\<close> property, is not valid. A token of three segments whose middle
  segment decodes to an object with a numeric \<^verbatim>\<open>exp\<close> is valid exactly when \<^verbatim>\<open>exp\<close> is
  greater than the current time in whole seconds. An \<^verbatim>\<open>exp\<close> of any other kind is first
  converted to a number by the comparison, and the token is valid exactly when the
  conversion gives a number greater than the current time.
\<close>

theorem validateToken_cases:
  "(length (split_on CHR ''.'' token) \<noteq> 3 \<longrightarrow> \<not> validateToken decode tonum token now_ms)
   \<and> (decode (split_on CHR ''.'' token ! 1) = None \<longrightarrow>
        \<not> validateToken decode tonum token now_ms)
   \<and> (decode (split_on CHR ''.'' token ! 1) = Some p \<and> (p = JNull \<or> get_prop p ''exp'' = None) \<longrightarrow>
        \<not> validateToken decode tonum token now_ms)
   \<and> (length (split_on CHR ''.'' token) = 3 \<and> decode (split_on CHR ''.'' token ! 1) = Some p
        \<and> get_prop p ''exp'' = Some (JNum x) \<longrightarrow>
        (validateToken decode tonum token now_ms \<longleftrightarrow> x > real_of_int (now_ms div 1000)))
   \<and> (length (split_on CHR ''.'' token) = 3 \<and> decode (split_on CHR ''.'' token ! 1) = Some p
        \<and> get_prop p ''exp'' = Some v \<longrightarrow>
        (validateToken decode tonum token now_ms \<longleftrightarrow>
           (\<exists>y. to_number tonum (Some v) = Some y \<and> y > real_of_int (now_ms div 1000))))"
proof -
  have ne: "length (split_on CHR ''.'' token) = 3 \<Longrightarrow> token \<noteq> []"
    by auto
  have nn: "\<And>k j. get_prop p k = Some j \<Longrightarrow> p \<noteq> JNull"
    by auto
  show ?thesis
    using ne nn
    by (auto simp: validateToken_def decodeToken_def greater_than_def Let_def
        split: option.splits)
qed

theorem validateToken_cases_witness:
  "length (split_on CHR ''.'' ''abc'') \<noteq> 3
   \<and> \<not> validateToken ex_decode ex_tonum ''abc'' 1700000000000
   \<and> ex_decode (split_on CHR ''.'' ''a.b.c'' ! 1) = None
   \<and> \<not> validateToken ex_decode ex_tonum ''a.b.c'' 1700000000000
   \<and> ex_decode (split_on CHR ''.'' ''a.e30.c'' ! 1) = Some (JObj [])
   \<and> get_prop (JObj []) ''exp'' = None
   \<and> \<not> validateToken ex_decode ex_tonum ''a.e30.c'' 1700000000000
   \<and> ex_decode (split_on CHR ''.'' ''a.bnVsbA.c'' ! 1) = Some JNull
   \<and> \<not> validateToken ex_decode ex_tonum ''a.bnVsbA.c'' 1700000000000
   \<and> length (split_on CHR ''.'' ex_token) = 3
   \<and> ex_decode (split_on CHR ''.'' ex_token ! 1) = Some (JObj [(''exp'', JNum 2000000000)])
   \<and> get_prop (JObj [(''exp'', JNum 2000000000)]) ''exp'' = Some (JNum 2000000000)
   \<and> validateToken ex_decode ex_tonum ex_token 1700000000000
   \<and> \<not> validateToken ex_decode ex_tonum ex_token 2000000000999
   \<and> length (split_on CHR ''.'' ex_string_exp_token) = 3
   \<and> ex_decode (split_on CHR ''.'' ex_string_exp_token ! 1)
       = Some (JObj [(''exp'', JStr ''99999999999'')])
   \<and> get_prop (JObj [(''exp'', JStr ''99999999999'')]) ''exp'' = Some (JStr ''99999999999'')
   \<and> to_number ex_tonum (Some (JStr ''99999999999'')) = Some 99999999999
   \<and> validateToken ex_decode ex_tonum ex_string_exp_token 1700000000000"
proof -
  have a1: "length (split_on CHR ''.'' ''abc'') \<noteq> 3" by simp
  have a2: "\<not> validateToken ex_decode ex_tonum ''abc'' 1700000000000"
    using a1 validateToken_cases [of "''abc''" ex_decode ex_tonum 1700000000000] by blast
  have b1: "ex_decode (split_on CHR ''.'' ''a.b.c'' ! 1) = None"
    by (simp add: ex_decode_def)
  have b2: "\<not> validateToken ex_decode ex_tonum ''a.b.c'' 1700000000000"
    using b1 validateToken_cases [of "''a.b.c''" ex_decode ex_tonum 1700000000000] by blast
  have c1: "ex_decode (split_on CHR ''.'' ''a.e30.c'' ! 1) = Some (JObj [])"
    by (simp add: ex_decode_def)
  have c2: "get_prop (JObj []) ''exp'' = None" by simp
  have c3: "\<not> validateToken ex_decode ex_tonum ''a.e30.c'' 1700000000000"
    using c1 c2 validateToken_cases [of "''a.e30.c''" ex_decode ex_tonum 1700000000000 "JObj []"]
    by blast
  have d1: "ex_decode (split_on CHR ''.'' ''a.bnVsbA.c'' ! 1) = Some JNull"
    by (simp add: ex_decode_def)
  have d2: "\<not> validateToken ex_decode ex_tonum ''a.bnVsbA.c'' 1700000000000"
    using d1 validateToken_cases [of "''a.bnVsbA.c''" ex_decode ex_tonum 1700000000000 JNull]
    by blast
  have e1: "length (split_on CHR ''.'' ex_token) = 3"
    by (simp add: split_ex_token)
  have e2: "ex_decode (split_on CHR ''.'' ex_token ! 1) = Some (JObj [(''exp'', JNum 2000000000)])"
    by (simp add: split_ex_token ex_decode_def)
  have e3: "get_prop (JObj [(''exp'', JNum 2000000000)]) ''exp'' = Some (JNum 2000000000)"
    by simp
  have e4: "(2000000000::real) > real_of_int (1700000000000 div 1000)" by simp
  have e5: "\<not> (2000000000::real) > real_of_int (2000000000999 div 1000)" by simp
  have e6: "validateToken ex_decode ex_tonum ex_token 1700000000000"
    using e1 e2 e3 e4
      validateToken_cases [of ex_token ex_decode ex_tonum 1700000000000
        "JObj [(''exp'', JNum 2000000000)]" 2000000000]
    by blast
  have e7: "\<not> validateToken ex_decode ex_tonum ex_token 2000000000999"
    using e1 e2 e3 e5
      validateToken_cases [of ex_token ex_decode ex_tonum 2000000000999
        "JObj [(''exp'', JNum 2000000000)]" 2000000000]
    by blast
  have f1: "length (split_on CHR ''.'' ex_string_exp_token) = 3"
    by (simp add: split_ex_string_exp_token)
  have f2: "ex_decode (split_on CHR ''.'' ex_string_exp_token ! 1)
       = Some (JObj [(''exp'', JStr ''99999999999'')])"
    by (simp add: split_ex_string_exp_token ex_decode_def)
  have f3: "get_prop (JObj [(''exp'', JStr ''99999999999'')]) ''exp'' = Some (JStr ''99999999999'')"
    by simp
  have f4: "to_number ex_tonum (Some (JStr ''99999999999'')) = Some 99999999999"
    by (simp add: ex_tonum_def)
  have f5: "(99999999999::real) > real_of_int (1700000000000 div 1000)" by simp
  have f6: "validateToken ex_decode ex_tonum ex_string_exp_token 1700000000000"
    using f1 f2 f3 f4 f5
      validateToken_cases [where token = ex_string_exp_token and decode = ex_decode
        and tonum = ex_tonum and now_ms = 1700000000000
        and p = "JObj [(''exp'', JStr ''99999999999'')]" and v = "JStr ''99999999999''"]
    by blast
  show ?thesis
    using a1 a2 b1 b2 c1 c2 c3 d1 d2 e1 e2 e3 e6 e7 f1 f2 f3 f4 f6 by blast
qed

end
